theory Spec2Isabelle
  imports Main "HOL-Library.Word" "HOL-Library.Finite_Map"
begin

unbundle bit_operations_syntax

section \<open>Primitive types\<close>

text \<open>
  Go's \<^verbatim>\<open>int64\<close> (Unix timestamps) is a 64-bit word read as two's complement:
  comparisons are the signed ones, \<open>+\<close> wraps. Go's \<^verbatim>\<open>int\<close> is used in the
  source only for lengths and indices, which never leave the range of the
  machine integer; it is modelled as \<open>int\<close>. A Go \<^verbatim>\<open>map\<close> is a finite map
  (\<open>fmap\<close>), a slice is a list, a nil-able pointer to a scalar is an \<open>option\<close>.
\<close>

type_synonym int64 = "64 word"

type_synonym bytes = "8 word list"

section \<open>Merkle audit tree (MerkleTree, src/core/error_handling.go lines 217-300)\<close>

text \<open>
  \<^verbatim>\<open>type MerkleTree struct { Leaves []string; Tree [][]string; mu sync.RWMutex }\<close>

  The hash \<^verbatim>\<open>fmt.Sprintf("%x", sha256.Sum256([]byte(s)))\<close> comes from the Go
  standard library; it is the parameter \<open>sha\<close> of every function below.
\<close>

record MerkleTree =
  Leaves :: "string list"
  Tree :: "string list list"

definition NewMerkleTree :: MerkleTree where
  "NewMerkleTree = \<lparr>Leaves = [], Tree = []\<rparr>"

text \<open>
  The inner loop of \<^verbatim>\<open>rebuildTree\<close>: \<^verbatim>\<open>for i := 0; i < len(currentLevel); i += 2\<close>
  pairs adjacent nodes and pairs a last unpaired node with itself.
\<close>

fun next_level :: "(string \<Rightarrow> string) \<Rightarrow> string list \<Rightarrow> string list" where
  "next_level sha [] = []"
| "next_level sha [left] = [sha (left @ left)]"
| "next_level sha (left # right # rest) = sha (left @ right) # next_level sha rest"

text \<open>
  The outer loop \<^verbatim>\<open>for len(currentLevel) > 1\<close>: each round appends the next level
  to \<^verbatim>\<open>mt.Tree\<close>. The second argument is the running value of \<^verbatim>\<open>mt.Tree\<close>.
\<close>

function build_levels :: "(string \<Rightarrow> string) \<Rightarrow> string list \<Rightarrow> string list list \<Rightarrow> string list list" where
  "build_levels sha currentLevel tree =
     (if length currentLevel > 1
      then build_levels sha (next_level sha currentLevel) (tree @ [next_level sha currentLevel])
      else tree)"
  by pat_completeness auto
termination
proof (relation "measure (\<lambda>(sha, currentLevel, tree). length currentLevel)")
  show "wf (measure (\<lambda>(sha, currentLevel, tree). length currentLevel))" by simp
next
  fix sha :: "string \<Rightarrow> string" and currentLevel :: "string list" and tree :: "string list list"
  assume long: "1 < length currentLevel"
  have halves: "length (next_level sha xs) = (length xs + 1) div 2" for xs
    by (induction sha xs rule: next_level.induct) simp_all
  from long show "((sha, next_level sha currentLevel, tree @ [next_level sha currentLevel]),
                   (sha, currentLevel, tree))
                  \<in> measure (\<lambda>(sha, currentLevel, tree). length currentLevel)"
    by (simp add: halves)
qed

declare build_levels.simps [simp del]

text \<open>
  \<^verbatim>\<open>rebuildTree\<close>: with no leaves the tree is reset to the empty slice; otherwise
  the leaf level and every level above it are appended to the value \<^verbatim>\<open>mt.Tree\<close>
  already has (\<^verbatim>\<open>mt.Tree = append(mt.Tree, currentLevel)\<close>).
\<close>

definition rebuildTree :: "(string \<Rightarrow> string) \<Rightarrow> MerkleTree \<Rightarrow> MerkleTree" where
  "rebuildTree sha mt =
     (if length (Leaves mt) = 0 then mt\<lparr>Tree := []\<rparr>
      else mt\<lparr>Tree := build_levels sha (Leaves mt) (Tree mt @ [Leaves mt])\<rparr>)"

definition AddLeaf :: "(string \<Rightarrow> string) \<Rightarrow> string \<Rightarrow> MerkleTree \<Rightarrow> MerkleTree" where
  "AddLeaf sha leafHash mt = rebuildTree sha (mt\<lparr>Leaves := Leaves mt @ [leafHash]\<rparr>)"

definition GetRoot :: "MerkleTree \<Rightarrow> string" where
  "GetRoot mt =
     (if length (Tree mt) = 0 then ''''
      else if length (last (Tree mt)) = 0 then ''''
      else hd (last (Tree mt)))"

text \<open>
  The loop of \<^verbatim>\<open>GetProof\<close> over the levels \<^verbatim>\<open>mt.Tree[0 .. len(mt.Tree)-2]\<close>. Indexing
  a slice with a negative index panics in Go: that is the result \<open>None\<close>. The
  index is negative only when the caller's \<^verbatim>\<open>leafIndex\<close> is, and then the first
  round panics, so \<open>div\<close> is only ever applied to a non-negative index, where
  it agrees with Go's truncating \<^verbatim>\<open>/\<close>.
\<close>

fun proof_loop :: "string list list \<Rightarrow> int \<Rightarrow> string list \<Rightarrow> string list option" where
  "proof_loop [] currentIndex proof = Some proof"
| "proof_loop (level # levels) currentIndex proof =
     (let siblingIndex = currentIndex XOR 1 in
      if siblingIndex < int (length level)
      then (if siblingIndex < 0 then None
            else proof_loop levels (currentIndex div 2) (proof @ [level ! nat siblingIndex]))
      else proof_loop levels (currentIndex div 2) proof)"

definition GetProof :: "MerkleTree \<Rightarrow> int \<Rightarrow> string list option" where
  "GetProof mt leafIndex =
     (if length (Tree mt) = 0 \<or> leafIndex \<ge> int (length (Leaves mt)) then Some []
      else proof_loop (butlast (Tree mt)) leafIndex [])"

section \<open>Temporal layer (TemporalBoundary, src/unnamed/part_006)\<close>

text \<open>\<^verbatim>\<open>type TemporalOperator string\<close> with the constants G, F, U, X.\<close>

type_synonym TemporalOperator = string

definition Always :: TemporalOperator where "Always = ''G''"
definition Eventually :: TemporalOperator where "Eventually = ''F''"
definition Until :: TemporalOperator where "Until = ''U''"
definition Next :: TemporalOperator where "Next = ''X''"

record TemporalBoundary =
  tb_ID :: string
  tb_SourceJurisdictionID :: string
  tb_TargetJurisdictionID :: string
  tb_Allowed :: bool
  tb_Reason :: string
  ValidFrom :: "int64 option"
  ValidUntil :: "int64 option"
  tb_TemporalOperator :: TemporalOperator
  RenewalPolicy :: "string option"

fun IsValidAt :: "TemporalBoundary \<Rightarrow> int64 \<Rightarrow> bool" where
  "IsValidAt tb timestamp =
     (if ValidFrom tb \<noteq> None \<and> timestamp <s the (ValidFrom tb) then False
      else if ValidUntil tb \<noteq> None \<and> the (ValidUntil tb) <s timestamp then False
      else True)"

section \<open>Library functions taken as parameters\<close>

text \<open>
  The pipeline calls into the Go standard library: SHA-256 rendered as hex,
  Ed25519 verification, \<^verbatim>\<open>json.Marshal\<close>, the \<^verbatim>\<open>%d\<close> verb of \<^verbatim>\<open>fmt\<close> and the wall
  clock. None of it is code of this repository; the record \<open>env\<close> carries
  each as a parameter. Every call site of \<^verbatim>\<open>time.Now()\<close> reads its own value
  (\<open>now env site\<close>), so nothing is assumed about how the clock moves
  during one request.
\<close>

datatype time_site =
    T_revocation nat
  | T_temporal
  | T_proposal_nanos
  | T_proposal
  | T_decision_log
  | T_flow
  | T_proof

datatype json_value = JString string | JInt int64

record env =
  sha256_hex :: "string \<Rightarrow> string"
  ed25519_verify :: "bytes \<Rightarrow> string \<Rightarrow> bytes \<Rightarrow> bool"
  json_marshal :: "(string \<times> json_value) list \<Rightarrow> string"
  fmt_d :: "int64 \<Rightarrow> string"
  now :: "time_site \<Rightarrow> int64"

definition fmt_t :: "bool \<Rightarrow> string" where
  "fmt_t b = (if b then ''true'' else ''false'')"

section \<open>Primitive records and errors (src/core/types.go, src/core/error_handling.go)\<close>

text \<open>
  The fields \<^verbatim>\<open>Attributes\<close> and \<^verbatim>\<open>Metadata\<close> (\<^verbatim>\<open>map[string]interface{}\<close>) are never
  read by the enforcement code and are left out. Field names carry a prefix
  where two structs share a name.
\<close>

type_synonym JurisdictionType = string

definition SOVEREIGN :: JurisdictionType where "SOVEREIGN = ''sovereign''"
definition LEGAL :: JurisdictionType where "LEGAL = ''legal''"
definition REGULATORY :: JurisdictionType where "REGULATORY = ''regulatory''"

record Jurisdiction =
  jur_ID :: string
  jur_Name :: string
  jur_Type :: JurisdictionType
  jur_ParentID :: "string option"

record ExecutionDomain =
  dom_ID :: string
  dom_Name :: string
  dom_JurisdictionID :: string

record Boundary =
  bnd_ID :: string
  bnd_SourceJurisdictionID :: string
  bnd_TargetJurisdictionID :: string
  bnd_Allowed :: bool
  bnd_Reason :: string

text \<open>\<^verbatim>\<open>PublicKey\<close> is a slice that may be nil: \<open>None\<close> is the nil key.\<close>

record CryptographicBinding =
  cb_ID :: string
  cb_ArtifactID :: string
  cb_JurisdictionID :: string
  cb_BindingType :: string
  cb_SignatureAlgorithm :: string
  cb_PublicKey :: "bytes option"
  cb_Signature :: bytes
  cb_ArtifactHash :: string
  cb_Timestamp :: int64

definition CanonicalForm :: "env \<Rightarrow> CryptographicBinding \<Rightarrow> string" where
  "CanonicalForm e cb = json_marshal e
     [(''artifact_hash'', JString (cb_ArtifactHash cb)),
      (''artifact_id'', JString (cb_ArtifactID cb)),
      (''binding_type'', JString (cb_BindingType cb)),
      (''jurisdiction_id'', JString (cb_JurisdictionID cb)),
      (''timestamp'', JInt (cb_Timestamp cb))]"

definition Verify :: "env \<Rightarrow> CryptographicBinding \<Rightarrow> bool" where
  "Verify e cb =
     (if cb_PublicKey cb = None \<or> length (cb_Signature cb) = 0 then False
      else ed25519_verify e (the (cb_PublicKey cb)) (CanonicalForm e cb) (cb_Signature cb))"

record BoundaryProof =
  bp_ID :: string
  bp_ArtifactID :: string
  bp_SourceDomainID :: string
  bp_TargetDomainID :: string
  bp_JurisdictionID :: string
  bp_Allowed :: bool
  bp_Reason :: string
  bp_Timestamp :: int64
  bp_Evidence :: "string list"

definition Hash :: "env \<Rightarrow> BoundaryProof \<Rightarrow> string" where
  "Hash e bp = sha256_hex e
     (bp_ID bp @ '':'' @ bp_ArtifactID bp @ '':'' @ bp_SourceDomainID bp @ '':'' @
      bp_TargetDomainID bp @ '':'' @ fmt_t (bp_Allowed bp) @ '':'' @ fmt_d e (bp_Timestamp bp))"

text \<open>
  The error types of \<^verbatim>\<open>types.go\<close> and \<^verbatim>\<open>error_handling.go\<close>, one constructor per
  kind, each carrying its message and (for the kinds built by a \<^verbatim>\<open>New...\<close>
  constructor) its context map as an association list. The error's own
  \<^verbatim>\<open>Timestamp\<close> and the constant \<^verbatim>\<open>RecoveryHint\<close> are left out.
\<close>

datatype error =
    InvalidJurisdictionBinding string
  | JurisdictionalViolation string
  | AmbiguousJurisdiction string
  | BindingIntegrityViolation string "(string \<times> string) list"
  | TemporalConstraintViolation string "(string \<times> string) list"
  | ConsensusFailure string "(string \<times> string) list"
  | InvariantViolation string "(string \<times> string) list"

definition NewBindingIntegrityViolation :: "string \<Rightarrow> string \<Rightarrow> error" where
  "NewBindingIntegrityViolation bindingID artifactID =
     BindingIntegrityViolation (''binding integrity violated for '' @ bindingID)
       [(''binding_id'', bindingID), (''artifact_id'', artifactID)]"

definition NewTemporalConstraintViolation :: "env \<Rightarrow> string \<Rightarrow> int64 \<Rightarrow> error" where
  "NewTemporalConstraintViolation e boundaryKey timestamp =
     TemporalConstraintViolation
       (''no valid temporal boundary for '' @ boundaryKey @ '' at timestamp '' @ fmt_d e timestamp)
       [(''boundary_key'', boundaryKey), (''timestamp'', fmt_d e timestamp)]"

definition NewConsensusFailure :: "string \<Rightarrow> (string \<times> string) list \<Rightarrow> error" where
  "NewConsensusFailure msg ctx = ConsensusFailure msg ctx"

definition NewInvariantViolation :: "string \<Rightarrow> (string \<times> string) list \<Rightarrow> error" where
  "NewInvariantViolation invariant details =
     InvariantViolation (''invariant violated: '' @ invariant) details"

section \<open>Base enforcer (BoundaryEnforcer, src/tests/research_grade_enforcer_test.go lines 106-292)\<close>

record BoundaryEnforcer =
  Jurisdictions :: "(string, Jurisdiction) fmap"
  ExecutionDomains :: "(string, ExecutionDomain) fmap"
  BoundArtifacts :: "(string, CryptographicBinding list) fmap"
  Boundaries :: "(string, Boundary) fmap"

definition NewBoundaryEnforcer :: BoundaryEnforcer where
  "NewBoundaryEnforcer =
     \<lparr>Jurisdictions = fmempty, ExecutionDomains = fmempty,
      BoundArtifacts = fmempty, Boundaries = fmempty\<rparr>"

definition RegisterJurisdiction :: "Jurisdiction \<Rightarrow> BoundaryEnforcer \<Rightarrow> BoundaryEnforcer" where
  "RegisterJurisdiction jurisdiction be =
     be\<lparr>Jurisdictions := fmupd (jur_ID jurisdiction) jurisdiction (Jurisdictions be)\<rparr>"

definition RegisterExecutionDomain :: "ExecutionDomain \<Rightarrow> BoundaryEnforcer \<Rightarrow> BoundaryEnforcer" where
  "RegisterExecutionDomain domain be =
     be\<lparr>ExecutionDomains := fmupd (dom_ID domain) domain (ExecutionDomains be)\<rparr>"

definition RegisterBoundary :: "Boundary \<Rightarrow> BoundaryEnforcer \<Rightarrow> BoundaryEnforcer" where
  "RegisterBoundary boundary be =
     be\<lparr>Boundaries :=
          fmupd (bnd_SourceJurisdictionID boundary @ '':'' @ bnd_TargetJurisdictionID boundary)
            boundary (Boundaries be)\<rparr>"

definition ResolveJurisdictionForArtifact :: "BoundaryEnforcer \<Rightarrow> string \<Rightarrow> string list" where
  "ResolveJurisdictionForArtifact be artifactID =
     (case fmlookup (BoundArtifacts be) artifactID of
        None \<Rightarrow> []
      | Some bindings \<Rightarrow> map cb_JurisdictionID bindings)"

text \<open>
  \<^verbatim>\<open>CheckBoundary\<close> takes the read lock and returns a proof or an error. The
  model threads the enforcer through the call and returns it with the
  result, so that what the call does to the registries is part of its value.
\<close>

definition CheckBoundary ::
  "env \<Rightarrow> BoundaryEnforcer \<Rightarrow> string \<Rightarrow> string \<Rightarrow> string \<Rightarrow> BoundaryEnforcer \<times> (error + BoundaryProof)" where
  "CheckBoundary e be artifactID sourceDomainID targetDomainID =
     (case (fmlookup (ExecutionDomains be) sourceDomainID,
            fmlookup (ExecutionDomains be) targetDomainID) of
        (Some sourceDomain, Some targetDomain) \<Rightarrow>
          (let artifactJurisdictions = ResolveJurisdictionForArtifact be artifactID;
               found = List.member artifactJurisdictions (dom_JurisdictionID sourceDomain)
           in if \<not> found
              then (be, Inl (JurisdictionalViolation
                     (''artifact '' @ artifactID @ '' not bound to source jurisdiction '' @
                      dom_JurisdictionID sourceDomain)))
              else
                (let boundaryKey = dom_JurisdictionID sourceDomain @ '':'' @
                                   dom_JurisdictionID targetDomain;
                     (allowed, reason) =
                       (case fmlookup (Boundaries be) boundaryKey of
                          Some boundary \<Rightarrow> (bnd_Allowed boundary, bnd_Reason boundary)
                        | None \<Rightarrow> (False, ''No explicit boundary rule defined''))
                 in (be, Inr \<lparr>bp_ID = sha256_hex e
                                 (artifactID @ '':'' @ sourceDomainID @ '':'' @ targetDomainID),
                               bp_ArtifactID = artifactID,
                               bp_SourceDomainID = sourceDomainID,
                               bp_TargetDomainID = targetDomainID,
                               bp_JurisdictionID = dom_JurisdictionID sourceDomain,
                               bp_Allowed = allowed,
                               bp_Reason = reason,
                               bp_Timestamp = now e T_proof,
                               bp_Evidence = []\<rparr>)))
      | _ \<Rightarrow> (be, Inl (JurisdictionalViolation
                 (''artifact '' @ artifactID @ '' not bound to source jurisdiction '' @
                  sourceDomainID))))"

section \<open>Revocation (src/core/error_handling.go) and the temporal manager (src/unnamed/part_006)\<close>

record BindingRevocation =
  RevokedBindings :: "(string, int64) fmap"

definition NewBindingRevocation :: BindingRevocation where
  "NewBindingRevocation = \<lparr>RevokedBindings = fmempty\<rparr>"

definition IsRevoked :: "BindingRevocation \<Rightarrow> string \<Rightarrow> int64 \<Rightarrow> bool" where
  "IsRevoked br bindingID timestamp =
     (case fmlookup (RevokedBindings br) bindingID of
        None \<Rightarrow> False
      | Some revocationTime \<Rightarrow> revocationTime \<le>s timestamp)"

text \<open>
  \<^verbatim>\<open>TemporalBoundaryManager\<close>: the map of temporal boundaries by id. The expiry
  callbacks (Go closures) are not called on the enforcement path and are
  left out.
\<close>

record TemporalBoundaryManager =
  TemporalBoundaries :: "(string, TemporalBoundary) fmap"

definition NewTemporalBoundaryManager :: TemporalBoundaryManager where
  "NewTemporalBoundaryManager = \<lparr>TemporalBoundaries = fmempty\<rparr>"

definition tbm_RegisterBoundary :: "TemporalBoundary \<Rightarrow> TemporalBoundaryManager \<Rightarrow> TemporalBoundaryManager" where
  "tbm_RegisterBoundary boundary tbm =
     tbm\<lparr>TemporalBoundaries := fmupd (tb_ID boundary) boundary (TemporalBoundaries tbm)\<rparr>"

section \<open>Distributed consent (DistributedBoundaryEnforcer, src/unnamed/part_005)\<close>

record BoundaryDecisionProposal =
  ProposalID :: string
  prop_ArtifactID :: string
  prop_SourceDomainID :: string
  prop_TargetDomainID :: string
  ProposedDecision :: bool
  ProposerNodeID :: string
  prop_Timestamp :: int64

text \<open>One entry of \<^verbatim>\<open>DecisionLog\<close>, a map with six fixed keys in the source.\<close>

record DecisionLogEntry =
  log_proposal_id :: string
  log_artifact_id :: string
  log_source_domain :: string
  log_target_domain :: string
  log_decision :: bool
  log_timestamp :: int64

record DistributedBoundaryEnforcer =
  NodeID :: string
  Peers :: "string list"
  Proposals :: "(string, BoundaryDecisionProposal) fmap"
  Votes :: "(string, (string, bool) fmap) fmap"
  DecisionLog :: "DecisionLogEntry list"

definition NewDistributedBoundaryEnforcer :: "string \<Rightarrow> string list \<Rightarrow> DistributedBoundaryEnforcer" where
  "NewDistributedBoundaryEnforcer nodeID peerNodes =
     \<lparr>NodeID = nodeID, Peers = peerNodes, Proposals = fmempty, Votes = fmempty, DecisionLog = []\<rparr>"

definition createProposal ::
  "env \<Rightarrow> DistributedBoundaryEnforcer \<Rightarrow> string \<Rightarrow> string \<Rightarrow> string \<Rightarrow> BoundaryDecisionProposal" where
  "createProposal e dbe artifactID sourceDomainID targetDomainID =
     \<lparr>ProposalID = sha256_hex e
        (NodeID dbe @ '':'' @ artifactID @ '':'' @ sourceDomainID @ '':'' @ targetDomainID @ '':'' @
         fmt_d e (now e T_proposal_nanos)),
      prop_ArtifactID = artifactID,
      prop_SourceDomainID = sourceDomainID,
      prop_TargetDomainID = targetDomainID,
      ProposedDecision = False,
      ProposerNodeID = NodeID dbe,
      prop_Timestamp = now e T_proposal\<rparr>"

text \<open>
  \<^verbatim>\<open>collectVotes\<close>: every peer and the node itself are entered with the vote
  \<^verbatim>\<open>true\<close>; the error it returns is always nil, so the result is always \<open>Inr\<close>.
\<close>

definition collectVotes :: "DistributedBoundaryEnforcer \<Rightarrow> string \<Rightarrow> string + (string, bool) fmap" where
  "collectVotes dbe proposalID =
     Inr (fmupd (NodeID dbe) True (fold (\<lambda>peer votes. fmupd peer True votes) (Peers dbe) fmempty))"

definition HasQuorum :: "DistributedBoundaryEnforcer \<Rightarrow> (string, bool) fmap \<Rightarrow> bool" where
  "HasQuorum dbe votes =
     (let totalNodes = int (length (Peers dbe)) + 1;
          f = (totalNodes - 1) div 3;
          quorum = 2 * f + 1
      in int (fcard (fmdom votes)) \<ge> quorum)"

definition ComputeDecision :: "DistributedBoundaryEnforcer \<Rightarrow> (string, bool) fmap \<Rightarrow> bool" where
  "ComputeDecision dbe votes =
     (if fcard (fmdom votes) = 0 then False
      else if fBex (fmran votes) (\<lambda>vote. \<not> vote) then False
      else True)"

text \<open>
  \<^verbatim>\<open>ProposeBoundaryDecision\<close>. The three broadcasts only start goroutines that
  format or print a message; they touch no field and are not modelled.
\<close>

definition ProposeBoundaryDecision ::
  "env \<Rightarrow> DistributedBoundaryEnforcer \<Rightarrow> string \<Rightarrow> string \<Rightarrow> string \<Rightarrow>
   DistributedBoundaryEnforcer \<times> (string + bool)" where
  "ProposeBoundaryDecision e dbe artifactID sourceDomainID targetDomainID =
     (let proposal = createProposal e dbe artifactID sourceDomainID targetDomainID;
          dbe1 = dbe\<lparr>Proposals := fmupd (ProposalID proposal) proposal (Proposals dbe)\<rparr>
      in case collectVotes dbe1 (ProposalID proposal) of
           Inl err \<Rightarrow> (dbe1, Inl err)
         | Inr votes \<Rightarrow>
             if HasQuorum dbe1 votes
             then (let decision = ComputeDecision dbe1 votes
                   in (dbe1\<lparr>DecisionLog := DecisionLog dbe1 @
                              [\<lparr>log_proposal_id = ProposalID proposal,
                                log_artifact_id = artifactID,
                                log_source_domain = sourceDomainID,
                                log_target_domain = targetDomainID,
                                log_decision = decision,
                                log_timestamp = now e T_decision_log\<rparr>]\<rparr>,
                       Inr decision))
             else (dbe1, Inr False))"

section \<open>Provenance (ProvenanceGraph, DataFlowTracker, src/core/provenance_tracking.go)\<close>

record ProvenanceNode =
  pn_ID :: string
  pn_ArtifactID :: string
  Operation :: string
  pn_JurisdictionID :: string
  pn_Timestamp :: int64
  ParentNodes :: "string list"
  pn_Metadata :: "(string \<times> string) list"

record ProvenanceGraph =
  Nodes :: "(string, ProvenanceNode) fmap"
  Edges :: "(string, string list) fmap"

definition NewProvenanceGraph :: ProvenanceGraph where
  "NewProvenanceGraph = \<lparr>Nodes = fmempty, Edges = fmempty\<rparr>"

definition add_edge :: "string \<Rightarrow> string \<Rightarrow> (string, string list) fmap \<Rightarrow> (string, string list) fmap" where
  "add_edge nodeID parentID edges =
     (case fmlookup edges parentID of
        None \<Rightarrow> fmupd parentID [nodeID] edges
      | Some children \<Rightarrow> fmupd parentID (children @ [nodeID]) edges)"

definition AddNode :: "ProvenanceNode \<Rightarrow> ProvenanceGraph \<Rightarrow> ProvenanceGraph" where
  "AddNode node pg =
     pg\<lparr>Nodes := fmupd (pn_ID node) node (Nodes pg),
        Edges := fold (add_edge (pn_ID node)) (ParentNodes node) (Edges pg)\<rparr>"

record FlowRecord =
  flow_node_id :: string
  flow_artifact_id :: string
  flow_operation :: string
  flow_source_jurisdiction :: string
  flow_target_jurisdiction :: string
  flow_timestamp :: int64
  flow_cross_boundary :: bool

record DataFlowTracker =
  Graph :: ProvenanceGraph
  FlowRecords :: "FlowRecord list"

definition NewDataFlowTracker :: DataFlowTracker where
  "NewDataFlowTracker = \<lparr>Graph = NewProvenanceGraph, FlowRecords = []\<rparr>"

definition RecordDataFlow ::
  "env \<Rightarrow> string \<Rightarrow> string \<Rightarrow> string \<Rightarrow> string \<Rightarrow> int64 option \<Rightarrow> DataFlowTracker \<Rightarrow> DataFlowTracker" where
  "RecordDataFlow e artifactID operation sourceJurisdiction targetJurisdiction timestamp dft =
     (let ts = (case timestamp of Some t \<Rightarrow> t | None \<Rightarrow> now e T_flow);
          nodeID = sha256_hex e
            (artifactID @ '':'' @ operation @ '':'' @ sourceJurisdiction @ '':'' @
             targetJurisdiction @ '':'' @ fmt_d e ts);
          node = \<lparr>pn_ID = nodeID, pn_ArtifactID = artifactID, Operation = operation,
                  pn_JurisdictionID = sourceJurisdiction, pn_Timestamp = ts, ParentNodes = [],
                  pn_Metadata = [(''target_jurisdiction'', targetJurisdiction),
                                 (''flow_type'', ''cross_boundary'')]\<rparr>
      in dft\<lparr>Graph := AddNode node (Graph dft),
             FlowRecords := FlowRecords dft @
               [\<lparr>flow_node_id = nodeID, flow_artifact_id = artifactID,
                 flow_operation = operation,
                 flow_source_jurisdiction = sourceJurisdiction,
                 flow_target_jurisdiction = targetJurisdiction,
                 flow_timestamp = ts,
                 flow_cross_boundary = (sourceJurisdiction \<noteq> targetJurisdiction)\<rparr>]\<rparr>)"

section \<open>Invariant checker (src/unnamed/part_007)\<close>

text \<open>
  Each check returns a Go \<^verbatim>\<open>error\<close>: \<open>None\<close> is nil, \<open>Some msg\<close> is the error
  built by \<^verbatim>\<open>fmt.Errorf\<close>.
\<close>

definition CheckNoUnboundExecution :: "BoundaryEnforcer \<Rightarrow> string \<Rightarrow> string option" where
  "CheckNoUnboundExecution enforcer artifactID =
     (case fmlookup (BoundArtifacts enforcer) artifactID of
        None \<Rightarrow> Some (''invariant I1 violated: '' @ artifactID @ '' has no bindings'')
      | Some bindings \<Rightarrow>
          if length bindings = 0
          then Some (''invariant I1 violated: '' @ artifactID @ '' has no bindings'')
          else None)"

definition CheckExplicitBoundaries :: "BoundaryEnforcer \<Rightarrow> string \<Rightarrow> string \<Rightarrow> string option" where
  "CheckExplicitBoundaries enforcer sourceJID targetJID =
     (if sourceJID \<noteq> targetJID
      then (let key = sourceJID @ '':'' @ targetJID
            in case fmlookup (Boundaries enforcer) key of
                 None \<Rightarrow> Some (''invariant I2 violated: no boundary defined for '' @ key)
               | Some boundary \<Rightarrow> None)
      else None)"

definition CheckFailClosedAmbiguity :: "bool \<Rightarrow> string \<Rightarrow> string option" where
  "CheckFailClosedAmbiguity decision reason =
     (if (reason = ''ambiguous'' \<or> reason = ''unclear'') \<and> decision
      then Some (''invariant I4 violated: ambiguous case allowed: '' @ reason)
      else None)"

text \<open>The argument is a pointer that may be nil: \<open>None\<close>.\<close>

definition CheckAuditability :: "BoundaryProof option \<Rightarrow> string option" where
  "CheckAuditability proof =
     (case proof of
        None \<Rightarrow> Some ''proof is nil''
      | Some p \<Rightarrow>
          if bp_ID p = [] then Some ''proof missing ID''
          else if bp_ArtifactID p = [] then Some ''proof missing artifact_id''
          else if bp_JurisdictionID p = [] then Some ''proof missing jurisdiction_id''
          else if bp_Reason p = [] then Some ''proof missing reason''
          else if bp_Timestamp p \<le>s 0 then Some ''proof missing timestamp''
          else None)"

section \<open>Integrated enforcer (src/core/research_grade_enforcer.go)\<close>

text \<open>
  The components of \<^verbatim>\<open>ResearchGradeBoundaryEnforcer\<close>. The invariant checker is
  an empty struct; the policy manager is never reached from the enforcement
  entry point and is left out.
\<close>

record KeyManager =
  Keys :: "(string, bytes) fmap"

record ResearchGradeBoundaryEnforcer =
  rge_BaseEnforcer :: BoundaryEnforcer
  rge_KeyManager :: KeyManager
  rge_MerkleTree :: MerkleTree
  rge_BindingRevocation :: BindingRevocation
  rge_TemporalManager :: TemporalBoundaryManager
  rge_DistributedEnforcer :: DistributedBoundaryEnforcer
  rge_ProvenanceTracker :: DataFlowTracker

definition NewResearchGradeBoundaryEnforcer :: "string \<Rightarrow> string list \<Rightarrow> ResearchGradeBoundaryEnforcer" where
  "NewResearchGradeBoundaryEnforcer nodeID peers =
     \<lparr>rge_BaseEnforcer = NewBoundaryEnforcer,
      rge_KeyManager = \<lparr>Keys = fmempty\<rparr>,
      rge_MerkleTree = NewMerkleTree,
      rge_BindingRevocation = NewBindingRevocation,
      rge_TemporalManager = NewTemporalBoundaryManager,
      rge_DistributedEnforcer = NewDistributedBoundaryEnforcer nodeID peers,
      rge_ProvenanceTracker = NewDataFlowTracker\<rparr>"

text \<open>
  \<^verbatim>\<open>checkTemporalValidity\<close>: the temporal boundaries whose key
  \<^verbatim>\<open>"src:tgt"\<close> equals the boundary key are collected; none collected is
  valid, otherwise one of them must be valid at the timestamp. The order in
  which Go ranges over the map does not reach the result.
\<close>

definition checkTemporalValidity :: "ResearchGradeBoundaryEnforcer \<Rightarrow> string \<Rightarrow> int64 \<Rightarrow> bool" where
  "checkTemporalValidity rge boundaryKey timestamp =
     (let temporalBoundaries =
            ffilter (\<lambda>tb. tb_SourceJurisdictionID tb @ '':'' @ tb_TargetJurisdictionID tb = boundaryKey)
              (fmran (TemporalBoundaries (rge_TemporalManager rge)))
      in if temporalBoundaries = {||} then True
         else fBex temporalBoundaries (\<lambda>tb. IsValidAt tb timestamp))"

text \<open>
  The loop over the artifact's bindings: the first binding that fails to
  verify, or is revoked at the time read in its round, ends the request.
\<close>

fun check_bindings ::
  "env \<Rightarrow> BindingRevocation \<Rightarrow> string \<Rightarrow> CryptographicBinding list \<Rightarrow> nat \<Rightarrow> error option" where
  "check_bindings e br artifactID [] i = None"
| "check_bindings e br artifactID (binding # bindings) i =
     (if \<not> Verify e binding then Some (NewBindingIntegrityViolation (cb_ID binding) artifactID)
      else if IsRevoked br (cb_ID binding) (now e (T_revocation i))
      then Some (NewBindingIntegrityViolation (cb_ID binding) artifactID)
      else check_bindings e br artifactID bindings (Suc i))"

definition consensus_context :: "string \<Rightarrow> string \<Rightarrow> string \<Rightarrow> (string \<times> string) list" where
  "consensus_context artifactID sourceDomainID targetDomainID =
     [(''artifact_id'', artifactID), (''source'', sourceDomainID), (''target'', targetDomainID)]"

definition EnforceBoundaryWithAllChecks ::
  "env \<Rightarrow> ResearchGradeBoundaryEnforcer \<Rightarrow> string \<Rightarrow> string \<Rightarrow> string \<Rightarrow>
   ResearchGradeBoundaryEnforcer \<times> (error + BoundaryProof)" where
  "EnforceBoundaryWithAllChecks e rge artifactID sourceDomainID targetDomainID =
     (case fmlookup (BoundArtifacts (rge_BaseEnforcer rge)) artifactID of
        None \<Rightarrow> (rge, Inl (InvalidJurisdictionBinding (''no bindings found for '' @ artifactID)))
      | Some bindings \<Rightarrow>
        if length bindings = 0
        then (rge, Inl (InvalidJurisdictionBinding (''no bindings found for '' @ artifactID)))
        else
        (case check_bindings e (rge_BindingRevocation rge) artifactID bindings 0 of
           Some err \<Rightarrow> (rge, Inl err)
         | None \<Rightarrow>
           (case (fmlookup (ExecutionDomains (rge_BaseEnforcer rge)) sourceDomainID,
                  fmlookup (ExecutionDomains (rge_BaseEnforcer rge)) targetDomainID) of
              (Some sourceDomain, Some targetDomain) \<Rightarrow>
                (let boundaryKey = dom_JurisdictionID sourceDomain @ '':'' @
                                   dom_JurisdictionID targetDomain;
                     currentTime = now e T_temporal
                 in if \<not> checkTemporalValidity rge boundaryKey currentTime
                    then (rge, Inl (NewTemporalConstraintViolation e boundaryKey currentTime))
                    else
                    (case CheckNoUnboundExecution (rge_BaseEnforcer rge) artifactID of
                       Some err \<Rightarrow>
                         (rge, Inl (NewInvariantViolation ''I1''
                                 [(''artifact_id'', artifactID), (''error'', err)]))
                     | None \<Rightarrow>
                       (case CheckExplicitBoundaries (rge_BaseEnforcer rge)
                               (dom_JurisdictionID sourceDomain) (dom_JurisdictionID targetDomain) of
                          Some err \<Rightarrow>
                            (rge, Inl (NewInvariantViolation ''I2''
                                    [(''source'', dom_JurisdictionID sourceDomain),
                                     (''target'', dom_JurisdictionID targetDomain),
                                     (''error'', err)]))
                        | None \<Rightarrow>
                          (case ProposeBoundaryDecision e (rge_DistributedEnforcer rge)
                                  artifactID sourceDomainID targetDomainID of
                             (dbe, Inl err) \<Rightarrow>
                               (rge\<lparr>rge_DistributedEnforcer := dbe\<rparr>,
                                Inl (NewConsensusFailure err
                                       (consensus_context artifactID sourceDomainID targetDomainID)))
                           | (dbe, Inr decision) \<Rightarrow>
                             if \<not> decision
                             then (rge\<lparr>rge_DistributedEnforcer := dbe\<rparr>,
                                   Inl (NewConsensusFailure
                                          ''distributed consensus denied boundary crossing''
                                          (consensus_context artifactID sourceDomainID targetDomainID)))
                             else
                             (let rge1 = rge\<lparr>rge_DistributedEnforcer := dbe,
                                             rge_ProvenanceTracker :=
                                               RecordDataFlow e artifactID ''boundary_check''
                                                 (dom_JurisdictionID sourceDomain)
                                                 (dom_JurisdictionID targetDomain) None
                                                 (rge_ProvenanceTracker rge)\<rparr>
                              in case CheckBoundary e (rge_BaseEnforcer rge1)
                                        artifactID sourceDomainID targetDomainID of
                                   (be, Inl err) \<Rightarrow> (rge1\<lparr>rge_BaseEnforcer := be\<rparr>, Inl err)
                                 | (be, Inr proof) \<Rightarrow>
                                   (case CheckAuditability (Some proof) of
                                      Some auditErr \<Rightarrow>
                                        (rge1\<lparr>rge_BaseEnforcer := be\<rparr>,
                                         Inl (NewInvariantViolation ''I5''
                                                [(''proof_id'', bp_ID proof), (''error'', auditErr)]))
                                    | None \<Rightarrow>
                                        (rge1\<lparr>rge_BaseEnforcer := be,
                                              rge_MerkleTree :=
                                                AddLeaf (sha256_hex e) (Hash e proof)
                                                  (rge_MerkleTree rge1)\<rparr>,
                                         Inr proof)))))))
            | _ \<Rightarrow> (rge, Inl (JurisdictionalViolation
                       (''artifact '' @ artifactID @ '' not bound to source jurisdiction '' @
                        sourceDomainID))))))"

section \<open>The Merkle proof as the specification words it\<close>

text \<open>
  The binary Merkle tree over a leaf list, as one run of the source's level
  construction on an empty tree produces it: the leaf level, then every
  level above it up to the root.
\<close>

definition merkle_levels :: "(string \<Rightarrow> string) \<Rightarrow> string list \<Rightarrow> string list list" where
  "merkle_levels sha leaves = (if leaves = [] then [] else build_levels sha leaves [leaves])"

text \<open>
  The proof of leaf \<open>i\<close> in the words of the specification: the sibling hashes
  from the leaf level upward over the tree of the current leaf list, with
  sibling index \<open>i XOR 1\<close> and \<open>i := i / 2\<close> from one level to the next.
\<close>

definition spec_get_proof :: "(string \<Rightarrow> string) \<Rightarrow> string list \<Rightarrow> int \<Rightarrow> string list option" where
  "spec_get_proof sha leaves i = proof_loop (butlast (merkle_levels sha leaves)) i []"

section \<open>Example states\<close>

text \<open>Stand-ins for the library functions, used where a concrete run is evaluated.\<close>

definition example_env :: env where
  "example_env =
     \<lparr>sha256_hex = (\<lambda>s. CHR ''#'' # s),
      ed25519_verify = (\<lambda>publicKey message signature. True),
      json_marshal = (\<lambda>fields. concat (map fst fields)),
      fmt_d = (\<lambda>n. ''1700000000''),
      now = (\<lambda>site. 1700000000)\<rparr>"

definition window_0_100 :: TemporalBoundary where
  "window_0_100 =
     \<lparr>tb_ID = ''temp-ca-to-tx'', tb_SourceJurisdictionID = ''us-ca'',
      tb_TargetJurisdictionID = ''us-tx'', tb_Allowed = True, tb_Reason = ''temporary'',
      ValidFrom = Some 0, ValidUntil = Some 100, tb_TemporalOperator = Always,
      RenewalPolicy = None\<rparr>"

definition inverted_window :: TemporalBoundary where
  "inverted_window = window_0_100\<lparr>ValidFrom := Some 10, ValidUntil := Some 5\<rparr>"

definition until_max_int64 :: TemporalBoundary where
  "until_max_int64 = window_0_100\<lparr>ValidFrom := None, ValidUntil := Some 0x7FFFFFFFFFFFFFFF\<rparr>"

definition three_peers :: DistributedBoundaryEnforcer where
  "three_peers = NewDistributedBoundaryEnforcer ''node-1'' [''node-2'', ''node-3'', ''node-4'']"

text \<open>
  The registries of the end-to-end scenarios: jurisdictions \<open>us-ca\<close> and \<open>us-tx\<close>,
  domains \<open>prod-west\<close> in \<open>us-ca\<close> and \<open>prod-east\<close> in \<open>us-tx\<close>, the artifact
  \<open>model-x\<close> bound to \<open>us-ca\<close>; first without a boundary rule, then with the
  rule that allows \<open>us-ca\<close> to \<open>us-tx\<close>.
\<close>

definition model_x_binding :: CryptographicBinding where
  "model_x_binding =
     \<lparr>cb_ID = ''binding-1'', cb_ArtifactID = ''model-x'', cb_JurisdictionID = ''us-ca'',
      cb_BindingType = ''static'', cb_SignatureAlgorithm = ''Ed25519'',
      cb_PublicKey = Some [1, 2, 3], cb_Signature = [4, 5, 6],
      cb_ArtifactHash = ''abc123def456'', cb_Timestamp = 1700000000\<rparr>"

definition base_no_boundary :: BoundaryEnforcer where
  "base_no_boundary =
     \<lparr>Jurisdictions =
        fmupd ''us-tx'' \<lparr>jur_ID = ''us-tx'', jur_Name = ''Texas'', jur_Type = SOVEREIGN,
                          jur_ParentID = None\<rparr>
          (fmupd ''us-ca'' \<lparr>jur_ID = ''us-ca'', jur_Name = ''California'', jur_Type = SOVEREIGN,
                            jur_ParentID = None\<rparr> fmempty),
      ExecutionDomains =
        fmupd ''prod-east'' \<lparr>dom_ID = ''prod-east'', dom_Name = ''East'',
                              dom_JurisdictionID = ''us-tx''\<rparr>
          (fmupd ''prod-west'' \<lparr>dom_ID = ''prod-west'', dom_Name = ''West'',
                                dom_JurisdictionID = ''us-ca''\<rparr> fmempty),
      BoundArtifacts = fmupd ''model-x'' [model_x_binding] fmempty,
      Boundaries = fmempty\<rparr>"

definition base_allow :: BoundaryEnforcer where
  "base_allow =
     RegisterBoundary
       \<lparr>bnd_ID = ''ca-to-tx'', bnd_SourceJurisdictionID = ''us-ca'',
        bnd_TargetJurisdictionID = ''us-tx'', bnd_Allowed = True,
        bnd_Reason = ''Allowed by policy''\<rparr>
       base_no_boundary"

definition enforcer_no_boundary :: ResearchGradeBoundaryEnforcer where
  "enforcer_no_boundary =
     (NewResearchGradeBoundaryEnforcer ''node-1'' [''node-2'', ''node-3''])
       \<lparr>rge_BaseEnforcer := base_no_boundary\<rparr>"

definition enforcer_allow :: ResearchGradeBoundaryEnforcer where
  "enforcer_allow =
     (NewResearchGradeBoundaryEnforcer ''node-1'' [''node-2'', ''node-3''])
       \<lparr>rge_BaseEnforcer := base_allow\<rparr>"

text \<open>The same registries with \<open>model-x\<close> bound to \<open>us-tx\<close> only.\<close>

definition enforcer_bound_elsewhere :: ResearchGradeBoundaryEnforcer where
  "enforcer_bound_elsewhere =
     enforcer_allow
       \<lparr>rge_BaseEnforcer := base_allow
          \<lparr>BoundArtifacts :=
             fmupd ''model-x'' [model_x_binding\<lparr>cb_JurisdictionID := ''us-tx''\<rparr>] fmempty\<rparr>\<rparr>"

text \<open>The proofs the base check builds for \<open>model-x\<close> from \<open>prod-west\<close> to \<open>prod-east\<close>.\<close>

definition allowed_proof :: BoundaryProof where
  "allowed_proof =
     \<lparr>bp_ID = ''#model-x:prod-west:prod-east'', bp_ArtifactID = ''model-x'',
      bp_SourceDomainID = ''prod-west'', bp_TargetDomainID = ''prod-east'',
      bp_JurisdictionID = ''us-ca'', bp_Allowed = True, bp_Reason = ''Allowed by policy'',
      bp_Timestamp = 1700000000, bp_Evidence = []\<rparr>"

definition denied_proof :: BoundaryProof where
  "denied_proof =
     allowed_proof\<lparr>bp_Allowed := False, bp_Reason := ''No explicit boundary rule defined''\<rparr>"

text \<open>The flow record written for that request.\<close>

definition west_to_east_flow :: FlowRecord where
  "west_to_east_flow =
     \<lparr>flow_node_id = ''#model-x:boundary_check:us-ca:us-tx:1700000000'',
      flow_artifact_id = ''model-x'', flow_operation = ''boundary_check'',
      flow_source_jurisdiction = ''us-ca'', flow_target_jurisdiction = ''us-tx'',
      flow_timestamp = 1700000000, flow_cross_boundary = True\<rparr>"

section \<open>Temporal validity\<close>

lemma sless_succ:
  fixes u :: int64
  assumes "u \<noteq> 0x7FFFFFFFFFFFFFFF"
  shows "u <s u + 1"
proof -
  have upper: "sint u < 2 ^ 63" using sint_lt [of u] by simp
  have lower: "- (2 ^ 63) \<le> sint u" using sint_ge [of u] by simp
  have "sint u \<noteq> 2 ^ 63 - 1"
  proof
    assume "sint u = 2 ^ 63 - 1"
    then have "(word_of_int (sint u) :: int64) = word_of_int (2 ^ 63 - 1)" by simp
    then have "u = 0x7FFFFFFFFFFFFFFF" by simp
    with assms show False by simp
  qed
  with upper have "sint u + 1 < 2 ^ 63" by simp
  with lower have "sint (u + 1) = sint u + 1"
    by (simp add: sint_word_add signed_take_bit_int_eq_self)
  then show ?thesis by (simp add: word_sless_alt)
qed

text \<open>
  C7, as the code has it. \<^verbatim>\<open>IsValidAt(t)\<close> is true exactly when \<open>ValidFrom\<close> is unset
  or at most \<open>t\<close>, and \<open>ValidUntil\<close> is unset or at least \<open>t\<close>. For a boundary
  with \<open>ValidUntil = u\<close>: \<^verbatim>\<open>IsValidAt(u)\<close> is true when \<open>ValidFrom\<close> is unset or at
  most \<open>u\<close>, and \<^verbatim>\<open>IsValidAt(u+1)\<close> is false when \<open>u\<close> is not the largest int64
  (so that \<open>u+1\<close> does not wrap).
\<close>

theorem IsValidAt_window:
  "IsValidAt tb t =
     ((case ValidFrom tb of None \<Rightarrow> True | Some validFrom \<Rightarrow> validFrom \<le>s t) \<and>
      (case ValidUntil tb of None \<Rightarrow> True | Some validUntil \<Rightarrow> t \<le>s validUntil))
   \<and> (ValidUntil tb = Some u \<longrightarrow>
        (case ValidFrom tb of None \<Rightarrow> True | Some validFrom \<Rightarrow> validFrom \<le>s u) \<longrightarrow>
        IsValidAt tb u)
   \<and> (ValidUntil tb = Some u \<longrightarrow> u \<noteq> 0x7FFFFFFFFFFFFFFF \<longrightarrow> \<not> IsValidAt tb (u + 1))"
proof (intro conjI impI)
  show "IsValidAt tb t =
     ((case ValidFrom tb of None \<Rightarrow> True | Some validFrom \<Rightarrow> validFrom \<le>s t) \<and>
      (case ValidUntil tb of None \<Rightarrow> True | Some validUntil \<Rightarrow> t \<le>s validUntil))"
    by (auto split: option.splits)
next
  assume "ValidUntil tb = Some u"
    and "case ValidFrom tb of None \<Rightarrow> True | Some validFrom \<Rightarrow> validFrom \<le>s u"
  then show "IsValidAt tb u" by (auto split: option.splits)
next
  assume "ValidUntil tb = Some u" and "u \<noteq> 0x7FFFFFFFFFFFFFFF"
  then show "\<not> IsValidAt tb (u + 1)" using sless_succ [of u] by simp
qed

theorem IsValidAt_window_witness:
  "IsValidAt window_0_100 50 \<and> IsValidAt window_0_100 100 \<and> \<not> IsValidAt window_0_100 101"
  using IsValidAt_window [of window_0_100 50 100] IsValidAt_window [of window_0_100 100 100]
  by (simp add: window_0_100_def word_sle_eq word_sless_alt)

text \<open>
  C7 as stated fails twice: a boundary whose \<open>ValidFrom\<close> lies after its
  \<open>ValidUntil = 5\<close> is not valid at 5, and for \<open>ValidUntil\<close> the largest int64
  the timestamp \<open>u+1\<close> wraps to the smallest one, where the boundary is valid.
\<close>

theorem IsValidAt_valid_until_counterexample:
  "ValidUntil inverted_window = Some 5 \<and> \<not> IsValidAt inverted_window 5 \<and>
   ValidUntil until_max_int64 = Some 0x7FFFFFFFFFFFFFFF \<and>
   IsValidAt until_max_int64 (0x7FFFFFFFFFFFFFFF + 1)"
  by (simp add: inverted_window_def until_max_int64_def window_0_100_def word_sless_alt)

section \<open>Quorum and decision\<close>

text \<open>
  C8. With \<open>N = |Peers| + 1\<close>, \<^verbatim>\<open>HasQuorum(votes)\<close> is true exactly when the number
  of entries of \<open>votes\<close> is at least \<open>2 * floor((N - 1) / 3) + 1\<close>; it counts the
  entries present, whatever their values: replacing every vote by any other
  value leaves the result as it is.
\<close>

theorem HasQuorum_participation:
  "HasQuorum dbe votes =
     (let N = length (Peers dbe) + 1 in 2 * ((N - 1) div 3) + 1 \<le> fcard (fmdom votes))
   \<and> HasQuorum dbe (fmmap f votes) = HasQuorum dbe votes"
proof
  show "HasQuorum dbe votes =
     (let N = length (Peers dbe) + 1 in 2 * ((N - 1) div 3) + 1 \<le> fcard (fmdom votes))"
  proof -
    have "int (length (Peers dbe)) div 3 = int (length (Peers dbe) div 3)"
      by (simp add: zdiv_int)
    then show ?thesis unfolding HasQuorum_def Let_def by simp linarith
  qed
  show "HasQuorum dbe (fmmap f votes) = HasQuorum dbe votes"
    unfolding HasQuorum_def by simp
qed

theorem HasQuorum_participation_witness:
  "HasQuorum three_peers (fmupd ''node-3'' False (fmupd ''node-2'' False (fmupd ''node-1'' False fmempty)))
   \<and> \<not> HasQuorum three_peers (fmupd ''node-2'' True (fmupd ''node-1'' True fmempty))"
  using HasQuorum_participation
    [of three_peers "fmupd ''node-3'' False (fmupd ''node-2'' False (fmupd ''node-1'' False fmempty))"]
    HasQuorum_participation
    [of three_peers "fmupd ''node-2'' True (fmupd ''node-1'' True fmempty)"]
  by (simp add: three_peers_def NewDistributedBoundaryEnforcer_def fcard_finsert_if fcard_fempty)

text \<open>
  C9. \<^verbatim>\<open>ComputeDecision(votes)\<close> is the conjunction of the votes, false on the
  empty map: it is true exactly when \<open>votes\<close> has an entry and every entry is
  true; so it is false on the empty map and false when some vote is false.
\<close>

theorem ComputeDecision_conjunction:
  "ComputeDecision dbe votes =
     (fmdom votes \<noteq> {||} \<and> (\<forall>node vote. fmlookup votes node = Some vote \<longrightarrow> vote))"
proof -
  have "(\<exists>vote |\<in>| fmran votes. \<not> vote) = (False |\<in>| fmran votes)"
  proof
    assume "\<exists>vote |\<in>| fmran votes. \<not> vote"
    then obtain vote where "vote |\<in>| fmran votes" and "\<not> vote" by (rule bexE)
    then show "False |\<in>| fmran votes" by simp
  next
    assume "False |\<in>| fmran votes"
    then show "\<exists>vote |\<in>| fmran votes. \<not> vote" by (intro bexI [of _ False]) simp_all
  qed
  then have some_false:
    "(\<exists>vote |\<in>| fmran votes. \<not> vote) = (\<exists>node. fmlookup votes node = Some False)"
    by (simp only: fmlookup_ran_iff)
  have all_true: "(\<forall>node vote. fmlookup votes node = Some vote \<longrightarrow> vote) =
                  (\<not> (\<exists>node. fmlookup votes node = Some False))"
  proof
    assume "\<forall>node vote. fmlookup votes node = Some vote \<longrightarrow> vote"
    then show "\<not> (\<exists>node. fmlookup votes node = Some False)" by blast
  next
    assume none: "\<not> (\<exists>node. fmlookup votes node = Some False)"
    show "\<forall>node vote. fmlookup votes node = Some vote \<longrightarrow> vote"
    proof (intro allI impI)
      fix node vote
      assume "fmlookup votes node = Some vote"
      with none show vote by (cases vote) auto
    qed
  qed
  show ?thesis unfolding ComputeDecision_def some_false all_true by simp
qed

theorem ComputeDecision_conjunction_witness:
  "ComputeDecision three_peers (fmupd ''node-2'' True (fmupd ''node-1'' True fmempty))
   \<and> \<not> ComputeDecision three_peers (fmupd ''node-2'' False (fmupd ''node-1'' True fmempty))
   \<and> \<not> ComputeDecision three_peers fmempty"
  using ComputeDecision_conjunction [of three_peers "fmupd ''node-2'' True (fmupd ''node-1'' True fmempty)"]
    ComputeDecision_conjunction [of three_peers "fmupd ''node-2'' False (fmupd ''node-1'' True fmempty)"]
    ComputeDecision_conjunction [of three_peers fmempty]
  by (auto split: if_splits)

section \<open>Merkle tree: what a rebuild leaves in the tree\<close>

lemma length_next_level: "length (next_level sha xs) = (length xs + 1) div 2"
  by (induction sha xs rule: next_level.induct) simp_all

text \<open>The levels built by one run are appended to whatever the tree held before.\<close>

lemma build_levels_append: "build_levels sha cur tree = tree @ build_levels sha cur []"
proof (induction "length cur" arbitrary: cur tree rule: less_induct)
  case less
  show ?case
  proof (cases "1 < length cur")
    case True
    let ?next = "next_level sha cur"
    have shorter: "length ?next < length cur"
      using True by (simp add: length_next_level)
    have "build_levels sha cur tree = build_levels sha ?next (tree @ [?next])"
      using True by (subst build_levels.simps) simp
    also have "\<dots> = (tree @ [?next]) @ build_levels sha ?next []"
      using less [OF shorter] .
    also have "\<dots> = tree @ build_levels sha ?next [?next]"
      using less [OF shorter, of "[?next]"] by simp
    also have "build_levels sha ?next [?next] = build_levels sha cur []"
      using True by (subst (2) build_levels.simps) simp
    finally show ?thesis .
  next
    case False
    then show ?thesis by (simp add: build_levels.simps)
  qed
qed

lemma rebuildTree_levels:
  "Leaves mt \<noteq> [] \<Longrightarrow> Tree (rebuildTree sha mt) = Tree mt @ merkle_levels sha (Leaves mt)"
  unfolding rebuildTree_def merkle_levels_def
  using build_levels_append [of sha "Leaves mt" "Tree mt @ [Leaves mt]"]
        build_levels_append [of sha "Leaves mt" "[Leaves mt]"]
  by simp

lemma merkle_levels_nonempty: "leaves \<noteq> [] \<Longrightarrow> merkle_levels sha leaves \<noteq> []"
  unfolding merkle_levels_def using build_levels_append [of sha leaves "[leaves]"] by simp

lemma AddLeaf_Leaves: "Leaves (AddLeaf sha h mt) = Leaves mt @ [h]"
  unfolding AddLeaf_def rebuildTree_def by simp

text \<open>
  After \<^verbatim>\<open>AddLeaf\<close> the tree is the old tree followed by the levels of the new
  leaf list: the levels of every earlier leaf list stay in front.
\<close>

lemma AddLeaf_levels:
  "Tree (AddLeaf sha h mt) = Tree mt @ merkle_levels sha (Leaves mt @ [h])"
  unfolding AddLeaf_def by (simp add: rebuildTree_levels)

text \<open>
  \<^verbatim>\<open>GetRoot\<close> reads the last level only, so the root after an append is the root
  of the levels of the leaf list, whatever the tree held before.
\<close>

lemma GetRoot_AddLeaf:
  "GetRoot (AddLeaf sha h mt) =
     GetRoot \<lparr>Leaves = Leaves mt @ [h], Tree = merkle_levels sha (Leaves mt @ [h])\<rparr>"
  unfolding GetRoot_def using merkle_levels_nonempty [of "Leaves mt @ [h]" sha]
  by (simp add: AddLeaf_levels)

text \<open>
  C2 at the input: a new tree, \<^verbatim>\<open>AddLeaf("a")\<close>, \<^verbatim>\<open>AddLeaf("b")\<close>, \<^verbatim>\<open>GetProof(1)\<close>. The
  leaf list is \<open>[a, b]\<close>, and the sibling path of leaf 1 in the tree over it
  is \<open>[a]\<close>. \<^verbatim>\<open>GetProof\<close> walks \<^verbatim>\<open>mt.Tree\<close> from index 0, where the level \<open>[a]\<close> of
  the first build still stands, and returns \<open>[a, b]\<close>.
\<close>

theorem GetProof_reads_stale_levels:
  "Leaves (AddLeaf sha ''b'' (AddLeaf sha ''a'' NewMerkleTree)) = [''a'', ''b''] \<and>
   GetProof (AddLeaf sha ''b'' (AddLeaf sha ''a'' NewMerkleTree)) 1 = Some [''a'', ''b''] \<and>
   spec_get_proof sha [''a'', ''b''] 1 = Some [''a'']"
  by (simp add: GetProof_def AddLeaf_def rebuildTree_def NewMerkleTree_def build_levels.simps
        spec_get_proof_def merkle_levels_def)

text \<open>
  C3 at the input: three leaves \<open>a, b, c\<close> appended to a new tree, then \<open>c\<close>
  appended once more. The odd level \<open>[a, b, c]\<close> pairs \<open>c\<close> with itself, which is
  what the level \<open>[a, b, c, c]\<close> pairs, so the root after the fourth append is
  the root before it, for every hash function.
\<close>

theorem AddLeaf_repeated_last_leaf_same_root:
  "GetRoot (AddLeaf sha c (AddLeaf sha c (AddLeaf sha b (AddLeaf sha a NewMerkleTree)))) =
   GetRoot (AddLeaf sha c (AddLeaf sha b (AddLeaf sha a NewMerkleTree)))"
  by (simp add: GetRoot_def AddLeaf_def rebuildTree_def NewMerkleTree_def build_levels.simps)

section \<open>Base enforcer: the boundary check reads only\<close>

lemma CheckBoundary_same_enforcer:
  "CheckBoundary e be artifactID sourceDomainID targetDomainID = (be', result) \<Longrightarrow> be' = be"
  unfolding CheckBoundary_def by (auto simp: Let_def split: option.splits prod.splits if_splits)

lemma CheckBoundary_error_kind:
  "CheckBoundary e be artifactID sourceDomainID targetDomainID = (be', Inl err) \<Longrightarrow>
   \<exists>msg. err = JurisdictionalViolation msg"
  unfolding CheckBoundary_def by (auto simp: Let_def split: option.splits prod.splits if_splits)

text \<open>
  C10. \<^verbatim>\<open>CheckBoundary\<close> is read-only: whatever the enforcer, the artifact and the
  two domains, and whether a proof or an error comes back, the enforcer after
  the call is the enforcer before it, in each of its four registries.
\<close>

theorem CheckBoundary_read_only:
  "fst (CheckBoundary e be artifactID sourceDomainID targetDomainID) = be \<and>
   Jurisdictions (fst (CheckBoundary e be artifactID sourceDomainID targetDomainID)) =
     Jurisdictions be \<and>
   ExecutionDomains (fst (CheckBoundary e be artifactID sourceDomainID targetDomainID)) =
     ExecutionDomains be \<and>
   BoundArtifacts (fst (CheckBoundary e be artifactID sourceDomainID targetDomainID)) =
     BoundArtifacts be \<and>
   Boundaries (fst (CheckBoundary e be artifactID sourceDomainID targetDomainID)) =
     Boundaries be"
proof -
  have "fst (CheckBoundary e be artifactID sourceDomainID targetDomainID) = be"
    unfolding CheckBoundary_def by (simp add: Let_def split: option.splits prod.splits)
  then show ?thesis by simp
qed

section \<open>Integrated enforcer: the decision pipeline\<close>

text \<open>
  C6. For an artifact with no entry, or with an empty list, in \<open>BoundArtifacts\<close>,
  \<^verbatim>\<open>EnforceBoundaryWithAllChecks\<close> returns the \<open>InvalidJurisdictionBinding\<close> error
  and no proof, for every source and target domain (and leaves the enforcer
  as it was).
\<close>

theorem unbound_artifact_rejected:
  assumes "fmlookup (BoundArtifacts (rge_BaseEnforcer rge)) artifactID = None \<or>
           fmlookup (BoundArtifacts (rge_BaseEnforcer rge)) artifactID = Some []"
  shows "EnforceBoundaryWithAllChecks e rge artifactID sourceDomainID targetDomainID =
           (rge, Inl (InvalidJurisdictionBinding (''no bindings found for '' @ artifactID)))"
  using assms unfolding EnforceBoundaryWithAllChecks_def by auto

theorem unbound_artifact_rejected_witness:
  "fmlookup (BoundArtifacts (rge_BaseEnforcer enforcer_allow)) ''unbound-artifact'' = None \<and>
   EnforceBoundaryWithAllChecks example_env enforcer_allow ''unbound-artifact''
       ''prod-west'' ''prod-east'' =
     (enforcer_allow, Inl (InvalidJurisdictionBinding ''no bindings found for unbound-artifact''))"
proof -
  have unbound:
    "fmlookup (BoundArtifacts (rge_BaseEnforcer enforcer_allow)) ''unbound-artifact'' = None"
    by (simp add: enforcer_allow_def base_allow_def base_no_boundary_def RegisterBoundary_def)
  then show ?thesis
    using unbound_artifact_rejected
      [of enforcer_allow "''unbound-artifact''" example_env "''prod-west''" "''prod-east''"]
    by simp
qed

text \<open>
  C5, as the code has it. When the source and target domains resolve to
  distinct jurisdictions and no boundary is registered under the key
  \<open>src_jid:tgt_jid\<close>, the request is denied whatever the rest of the state:
  \<^verbatim>\<open>EnforceBoundaryWithAllChecks\<close> returns an error, so never a proof with
  \<open>Allowed = true\<close>. \<^verbatim>\<open>CheckBoundary\<close> returns a proof with \<open>Allowed = false\<close> and
  the reason \<open>No explicit boundary rule defined\<close> when the artifact is bound to
  the jurisdiction of the source domain; when it is not, \<^verbatim>\<open>CheckBoundary\<close> returns
  the \<open>JurisdictionalViolation\<close> error and no proof.
\<close>

theorem no_boundary_rule_denied:
  assumes src: "fmlookup (ExecutionDomains (rge_BaseEnforcer rge)) sourceDomainID = Some sourceDomain"
      and tgt: "fmlookup (ExecutionDomains (rge_BaseEnforcer rge)) targetDomainID = Some targetDomain"
      and distinct: "dom_JurisdictionID sourceDomain \<noteq> dom_JurisdictionID targetDomain"
      and no_rule: "fmlookup (Boundaries (rge_BaseEnforcer rge))
                      (dom_JurisdictionID sourceDomain @ '':'' @ dom_JurisdictionID targetDomain) = None"
  shows "(\<exists>err. snd (EnforceBoundaryWithAllChecks e rge artifactID sourceDomainID targetDomainID) = Inl err)
       \<and> (List.member (ResolveJurisdictionForArtifact (rge_BaseEnforcer rge) artifactID)
             (dom_JurisdictionID sourceDomain)
            \<longrightarrow> (\<exists>p. snd (CheckBoundary e (rge_BaseEnforcer rge) artifactID sourceDomainID targetDomainID) = Inr p
                      \<and> \<not> bp_Allowed p \<and> bp_Reason p = ''No explicit boundary rule defined''))
       \<and> (\<not> List.member (ResolveJurisdictionForArtifact (rge_BaseEnforcer rge) artifactID)
               (dom_JurisdictionID sourceDomain)
            \<longrightarrow> snd (CheckBoundary e (rge_BaseEnforcer rge) artifactID sourceDomainID targetDomainID) =
                  Inl (JurisdictionalViolation
                         (''artifact '' @ artifactID @ '' not bound to source jurisdiction '' @
                          dom_JurisdictionID sourceDomain)))"
proof (intro conjI)
  have i2: "CheckExplicitBoundaries (rge_BaseEnforcer rge)
              (dom_JurisdictionID sourceDomain) (dom_JurisdictionID targetDomain) \<noteq> None"
    using distinct no_rule unfolding CheckExplicitBoundaries_def by (simp add: Let_def)
  show "\<exists>err. snd (EnforceBoundaryWithAllChecks e rge artifactID sourceDomainID targetDomainID) = Inl err"
    using src tgt i2 unfolding EnforceBoundaryWithAllChecks_def
    by (auto simp: Let_def split: option.splits)
next
  show "List.member (ResolveJurisdictionForArtifact (rge_BaseEnforcer rge) artifactID)
             (dom_JurisdictionID sourceDomain)
            \<longrightarrow> (\<exists>p. snd (CheckBoundary e (rge_BaseEnforcer rge) artifactID sourceDomainID targetDomainID) = Inr p
                      \<and> \<not> bp_Allowed p \<and> bp_Reason p = ''No explicit boundary rule defined'')"
    using src tgt no_rule unfolding CheckBoundary_def
    by (simp add: Let_def)
next
  show "\<not> List.member (ResolveJurisdictionForArtifact (rge_BaseEnforcer rge) artifactID)
               (dom_JurisdictionID sourceDomain)
            \<longrightarrow> snd (CheckBoundary e (rge_BaseEnforcer rge) artifactID sourceDomainID targetDomainID) =
                  Inl (JurisdictionalViolation
                         (''artifact '' @ artifactID @ '' not bound to source jurisdiction '' @
                          dom_JurisdictionID sourceDomain))"
    using src tgt unfolding CheckBoundary_def
    by (simp add: Let_def)
qed

theorem no_boundary_rule_denied_witness:
  "snd (EnforceBoundaryWithAllChecks example_env enforcer_no_boundary
          ''model-x'' ''prod-west'' ''prod-east'') =
     Inl (InvariantViolation ''invariant violated: I2''
            [(''source'', ''us-ca''), (''target'', ''us-tx''),
             (''error'', ''invariant I2 violated: no boundary defined for us-ca:us-tx'')]) \<and>
   List.member (ResolveJurisdictionForArtifact (rge_BaseEnforcer enforcer_no_boundary) ''model-x'')
     ''us-ca'' \<and>
   snd (CheckBoundary example_env (rge_BaseEnforcer enforcer_no_boundary)
          ''model-x'' ''prod-west'' ''prod-east'') = Inr denied_proof \<and>
   \<not> bp_Allowed denied_proof \<and> bp_Reason denied_proof = ''No explicit boundary rule defined''"
proof -
  let ?west = "\<lparr>dom_ID = ''prod-west'', dom_Name = ''West'', dom_JurisdictionID = ''us-ca''\<rparr>"
  let ?east = "\<lparr>dom_ID = ''prod-east'', dom_Name = ''East'', dom_JurisdictionID = ''us-tx''\<rparr>"
  have src: "fmlookup (ExecutionDomains (rge_BaseEnforcer enforcer_no_boundary)) ''prod-west'' = Some ?west"
    by (simp add: enforcer_no_boundary_def base_no_boundary_def)
  have tgt: "fmlookup (ExecutionDomains (rge_BaseEnforcer enforcer_no_boundary)) ''prod-east'' = Some ?east"
    by (simp add: enforcer_no_boundary_def base_no_boundary_def)
  have distinct: "dom_JurisdictionID ?west \<noteq> dom_JurisdictionID ?east" by simp
  have no_rule: "fmlookup (Boundaries (rge_BaseEnforcer enforcer_no_boundary))
                   (dom_JurisdictionID ?west @ '':'' @ dom_JurisdictionID ?east) = None"
    by (simp add: enforcer_no_boundary_def base_no_boundary_def)
  have bound: "List.member
                 (ResolveJurisdictionForArtifact (rge_BaseEnforcer enforcer_no_boundary) ''model-x'')
                 ''us-ca''"
    by code_simp
  have enforce: "snd (EnforceBoundaryWithAllChecks example_env enforcer_no_boundary
          ''model-x'' ''prod-west'' ''prod-east'') =
     Inl (InvariantViolation ''invariant violated: I2''
            [(''source'', ''us-ca''), (''target'', ''us-tx''),
             (''error'', ''invariant I2 violated: no boundary defined for us-ca:us-tx'')])"
    by code_simp
  have check: "snd (CheckBoundary example_env (rge_BaseEnforcer enforcer_no_boundary)
          ''model-x'' ''prod-west'' ''prod-east'') = Inr denied_proof"
    by code_simp
  from no_boundary_rule_denied [OF src tgt distinct no_rule, of example_env "''model-x''"]
    bound enforce check
  show ?thesis by simp
qed

text \<open>
  C5 as stated fails in its last part. In the registries without a boundary
  rule, \<open>prod-west\<close> and \<open>prod-east\<close> resolve to \<open>us-ca\<close> and \<open>us-tx\<close> and nothing is
  registered under \<open>us-ca:us-tx\<close>; for the artifact \<open>ghost\<close>, which has no
  binding, \<^verbatim>\<open>CheckBoundary\<close> returns the error of its binding check, which runs
  before the rule is looked up, and no proof.
\<close>

theorem CheckBoundary_unbound_no_proof_counterexample:
  "fmlookup (ExecutionDomains base_no_boundary) ''prod-west'' =
     Some \<lparr>dom_ID = ''prod-west'', dom_Name = ''West'', dom_JurisdictionID = ''us-ca''\<rparr> \<and>
   fmlookup (ExecutionDomains base_no_boundary) ''prod-east'' =
     Some \<lparr>dom_ID = ''prod-east'', dom_Name = ''East'', dom_JurisdictionID = ''us-tx''\<rparr> \<and>
   fmlookup (Boundaries base_no_boundary) ''us-ca:us-tx'' = None \<and>
   snd (CheckBoundary example_env base_no_boundary ''ghost'' ''prod-west'' ''prod-east'') =
     Inl (JurisdictionalViolation ''artifact ghost not bound to source jurisdiction us-ca'')"
  by code_simp

lemma CheckAuditability_passes:
  assumes "CheckAuditability (Some p) = None"
  shows "bp_ID p \<noteq> [] \<and> bp_ArtifactID p \<noteq> [] \<and> bp_JurisdictionID p \<noteq> [] \<and>
         bp_Reason p \<noteq> [] \<and> 0 <s bp_Timestamp p"
  using assms unfolding CheckAuditability_def
  by (simp add: signed.not_le split: if_splits)

lemma enforce_proof_audited:
  assumes "snd (EnforceBoundaryWithAllChecks e rge artifactID sourceDomainID targetDomainID) = Inr p"
  shows "CheckAuditability (Some p) = None"
  using assms unfolding EnforceBoundaryWithAllChecks_def
  by (auto simp: Let_def split: option.splits if_splits sum.splits prod.splits)

lemma enforce_allow_run:
  "snd (EnforceBoundaryWithAllChecks example_env enforcer_allow
          ''model-x'' ''prod-west'' ''prod-east'') = Inr allowed_proof"
  by code_simp

text \<open>
  C4. Every proof \<^verbatim>\<open>EnforceBoundaryWithAllChecks\<close> returns without error satisfies
  I5: its \<open>ID\<close>, \<open>ArtifactID\<close>, \<open>JurisdictionID\<close> and \<open>Reason\<close> are non-empty and its
  \<open>Timestamp\<close> is greater than 0.
\<close>

theorem enforced_proof_auditable:
  assumes "snd (EnforceBoundaryWithAllChecks e rge artifactID sourceDomainID targetDomainID) = Inr p"
  shows "bp_ID p \<noteq> [] \<and> bp_ArtifactID p \<noteq> [] \<and> bp_JurisdictionID p \<noteq> [] \<and>
         bp_Reason p \<noteq> [] \<and> 0 <s bp_Timestamp p"
  using assms by (intro CheckAuditability_passes enforce_proof_audited)

theorem enforced_proof_auditable_witness:
  "snd (EnforceBoundaryWithAllChecks example_env enforcer_allow
          ''model-x'' ''prod-west'' ''prod-east'') = Inr allowed_proof \<and>
   bp_ID allowed_proof \<noteq> [] \<and> bp_ArtifactID allowed_proof \<noteq> [] \<and>
   bp_JurisdictionID allowed_proof \<noteq> [] \<and> bp_Reason allowed_proof \<noteq> [] \<and>
   0 <s bp_Timestamp allowed_proof"
  using enforced_proof_auditable [OF enforce_allow_run] enforce_allow_run by simp

lemma check_bindings_error_kind:
  "check_bindings e br artifactID bindings i = Some err \<Longrightarrow>
   \<exists>msg ctx. err = BindingIntegrityViolation msg ctx"
  by (induction bindings arbitrary: i)
     (auto simp: NewBindingIntegrityViolation_def split: if_splits)

lemma enforce_bound_elsewhere_run:
  "EnforceBoundaryWithAllChecks example_env enforcer_bound_elsewhere
       ''model-x'' ''prod-west'' ''prod-east'' =
     (fst (EnforceBoundaryWithAllChecks example_env enforcer_bound_elsewhere
             ''model-x'' ''prod-west'' ''prod-east''),
      Inl (JurisdictionalViolation ''artifact model-x not bound to source jurisdiction us-ca''))"
proof -
  have "snd (EnforceBoundaryWithAllChecks example_env enforcer_bound_elsewhere
               ''model-x'' ''prod-west'' ''prod-east'') =
          Inl (JurisdictionalViolation ''artifact model-x not bound to source jurisdiction us-ca'')"
    by code_simp
  then show ?thesis by (simp add: prod_eq_iff)
qed

text \<open>
  C1, as the code has it. A call of \<^verbatim>\<open>EnforceBoundaryWithAllChecks\<close> that returns an
  error appends no leaf to the Merkle tree, and leaves the base registries,
  the key manager, the revocation set and the temporal boundaries as they
  were. An error raised before the consensus step (no binding, binding
  integrity, unknown domain, temporal constraint, invariant I1 or I2) leaves
  the whole enforcer unchanged; a consensus failure records no provenance or
  flow record. The error of the base check for an artifact not bound to the
  source jurisdiction and the I5 violation are raised after the flow record
  of the request has been written; nothing is said of the tracker there.
\<close>

theorem enforce_error_state:
  assumes "EnforceBoundaryWithAllChecks e rge artifactID sourceDomainID targetDomainID = (rge', Inl err)"
  shows "rge_MerkleTree rge' = rge_MerkleTree rge \<and>
         rge_BaseEnforcer rge' = rge_BaseEnforcer rge \<and>
         rge_KeyManager rge' = rge_KeyManager rge \<and>
         rge_BindingRevocation rge' = rge_BindingRevocation rge \<and>
         rge_TemporalManager rge' = rge_TemporalManager rge \<and>
         (case err of
            ConsensusFailure msg ctx \<Rightarrow> rge_ProvenanceTracker rge' = rge_ProvenanceTracker rge
          | JurisdictionalViolation msg \<Rightarrow>
              fmlookup (ExecutionDomains (rge_BaseEnforcer rge)) sourceDomainID = None \<or>
              fmlookup (ExecutionDomains (rge_BaseEnforcer rge)) targetDomainID = None
              \<longrightarrow> rge' = rge
          | InvariantViolation msg ctx \<Rightarrow> msg \<noteq> ''invariant violated: I5'' \<longrightarrow> rge' = rge
          | _ \<Rightarrow> rge' = rge)"
  using assms unfolding EnforceBoundaryWithAllChecks_def
  by (auto simp: Let_def NewInvariantViolation_def NewConsensusFailure_def
        NewTemporalConstraintViolation_def
      split: option.splits if_splits sum.splits prod.splits
      dest: CheckBoundary_same_enforcer CheckBoundary_error_kind check_bindings_error_kind)

theorem enforce_error_state_witness:
  "snd (EnforceBoundaryWithAllChecks example_env enforcer_bound_elsewhere
          ''model-x'' ''prod-west'' ''prod-east'') =
     Inl (JurisdictionalViolation ''artifact model-x not bound to source jurisdiction us-ca'') \<and>
   rge_MerkleTree (fst (EnforceBoundaryWithAllChecks example_env enforcer_bound_elsewhere
                          ''model-x'' ''prod-west'' ''prod-east'')) =
     rge_MerkleTree enforcer_bound_elsewhere \<and>
   rge_BaseEnforcer (fst (EnforceBoundaryWithAllChecks example_env enforcer_bound_elsewhere
                            ''model-x'' ''prod-west'' ''prod-east'')) =
     rge_BaseEnforcer enforcer_bound_elsewhere"
  using enforce_error_state [OF enforce_bound_elsewhere_run] enforce_bound_elsewhere_run
  by (simp add: prod_eq_iff)

text \<open>
  C1 as stated fails. \<open>model-x\<close> is bound to \<open>us-tx\<close> only and is sent from
  \<open>prod-west\<close> (in \<open>us-ca\<close>) to \<open>prod-east\<close>: every check up to the consensus
  passes, the flow record is written, and then the base check returns its
  error. The call returns the error and the tracker holds one more record.
\<close>

theorem enforce_error_after_flow_record_counterexample:
  "snd (EnforceBoundaryWithAllChecks example_env enforcer_bound_elsewhere
          ''model-x'' ''prod-west'' ''prod-east'') =
     Inl (JurisdictionalViolation ''artifact model-x not bound to source jurisdiction us-ca'') \<and>
   FlowRecords (rge_ProvenanceTracker enforcer_bound_elsewhere) = [] \<and>
   FlowRecords (rge_ProvenanceTracker
      (fst (EnforceBoundaryWithAllChecks example_env enforcer_bound_elsewhere
              ''model-x'' ''prod-west'' ''prod-east''))) = [west_to_east_flow]"
  by code_simp

end
